theory Spec2Isabelle
  imports Complex_Main "HOL-Library.Multiset"
begin

section \<open>JavaScript numbers\<close>

text \<open>
  The layout engine of \<^verbatim>\<open>src/utils/layout.js\<close> computes with JavaScript numbers.
  Finite values are idealised as real numbers (no rounding), and the three
  non-finite values that IEEE arithmetic produces on a division by zero are kept,
  because the code does not guard its divisions: \<open>1 / 0\<close> is \<open>Infinity\<close>,
  \<open>0 / 0\<close> is \<open>NaN\<close>, and \<open>NaN\<close> propagates through every operation and makes
  every comparison false. The two zeros of IEEE arithmetic are identified.
\<close>

datatype jsnum = Num real | PosInf | NegInf | NaN

instantiation jsnum :: "{plus, minus, times, inverse, ord}"
begin

fun plus_jsnum :: "jsnum \<Rightarrow> jsnum \<Rightarrow> jsnum" where
  "plus_jsnum NaN b = NaN"
| "plus_jsnum a NaN = NaN"
| "plus_jsnum PosInf NegInf = NaN"
| "plus_jsnum NegInf PosInf = NaN"
| "plus_jsnum PosInf b = PosInf"
| "plus_jsnum a PosInf = PosInf"
| "plus_jsnum NegInf b = NegInf"
| "plus_jsnum a NegInf = NegInf"
| "plus_jsnum (Num a) (Num b) = Num (a + b)"

fun minus_jsnum :: "jsnum \<Rightarrow> jsnum \<Rightarrow> jsnum" where
  "minus_jsnum NaN b = NaN"
| "minus_jsnum a NaN = NaN"
| "minus_jsnum PosInf PosInf = NaN"
| "minus_jsnum NegInf NegInf = NaN"
| "minus_jsnum PosInf b = PosInf"
| "minus_jsnum a PosInf = NegInf"
| "minus_jsnum NegInf b = NegInf"
| "minus_jsnum a NegInf = PosInf"
| "minus_jsnum (Num a) (Num b) = Num (a - b)"

fun times_jsnum :: "jsnum \<Rightarrow> jsnum \<Rightarrow> jsnum" where
  "times_jsnum NaN b = NaN"
| "times_jsnum a NaN = NaN"
| "times_jsnum PosInf PosInf = PosInf"
| "times_jsnum PosInf NegInf = NegInf"
| "times_jsnum NegInf PosInf = NegInf"
| "times_jsnum NegInf NegInf = PosInf"
| "times_jsnum PosInf (Num b) = (if b = 0 then NaN else if 0 < b then PosInf else NegInf)"
| "times_jsnum NegInf (Num b) = (if b = 0 then NaN else if 0 < b then NegInf else PosInf)"
| "times_jsnum (Num a) PosInf = (if a = 0 then NaN else if 0 < a then PosInf else NegInf)"
| "times_jsnum (Num a) NegInf = (if a = 0 then NaN else if 0 < a then NegInf else PosInf)"
| "times_jsnum (Num a) (Num b) = Num (a * b)"

fun divide_jsnum :: "jsnum \<Rightarrow> jsnum \<Rightarrow> jsnum" where
  "divide_jsnum NaN b = NaN"
| "divide_jsnum a NaN = NaN"
| "divide_jsnum PosInf PosInf = NaN"
| "divide_jsnum PosInf NegInf = NaN"
| "divide_jsnum NegInf PosInf = NaN"
| "divide_jsnum NegInf NegInf = NaN"
| "divide_jsnum PosInf (Num b) = (if b < 0 then NegInf else PosInf)"
| "divide_jsnum NegInf (Num b) = (if b < 0 then PosInf else NegInf)"
| "divide_jsnum (Num a) PosInf = Num 0"
| "divide_jsnum (Num a) NegInf = Num 0"
| "divide_jsnum (Num a) (Num b) =
     (if b = 0 then (if a = 0 then NaN else if 0 < a then PosInf else NegInf)
      else Num (a / b))"

definition inverse_jsnum :: "jsnum \<Rightarrow> jsnum" where
  "inverse_jsnum a = divide (Num 1) a"

fun less_eq_jsnum :: "jsnum \<Rightarrow> jsnum \<Rightarrow> bool" where
  "less_eq_jsnum NaN b = False"
| "less_eq_jsnum a NaN = False"
| "less_eq_jsnum NegInf b = True"
| "less_eq_jsnum a PosInf = True"
| "less_eq_jsnum PosInf b = False"
| "less_eq_jsnum a NegInf = False"
| "less_eq_jsnum (Num a) (Num b) = (a \<le> b)"

fun less_jsnum :: "jsnum \<Rightarrow> jsnum \<Rightarrow> bool" where
  "less_jsnum NaN b = False"
| "less_jsnum a NaN = False"
| "less_jsnum PosInf b = False"
| "less_jsnum a NegInf = False"
| "less_jsnum NegInf b = True"
| "less_jsnum a PosInf = True"
| "less_jsnum (Num a) (Num b) = (a < b)"

instance ..

end

text \<open>\<^verbatim>\<open>Math.max(a, b)\<close>: \<open>NaN\<close> as soon as one argument is \<open>NaN\<close>.\<close>

fun Math_max :: "jsnum \<Rightarrow> jsnum \<Rightarrow> jsnum" where
  "Math_max NaN b = NaN"
| "Math_max a NaN = NaN"
| "Math_max a b = (if a \<le> b then b else a)"

section \<open>Items and placed rectangles\<close>

text \<open>
  An input item is a JavaScript object with a numeric \<^verbatim>\<open>size\<close> and any other
  properties the caller attached (identifier, name, image, ...); the engine reads
  only \<^verbatim>\<open>size\<close>, so the other properties are one opaque field (they are not
  named \<^verbatim>\<open>normalizedSize\<close>, \<^verbatim>\<open>x\<close>, \<^verbatim>\<open>y\<close>, \<^verbatim>\<open>width\<close> or
  \<^verbatim>\<open>height\<close>, which the engine writes). Input numbers are finite, and the list of
  items is an array, not \<^verbatim>\<open>null\<close>. \<^verbatim>\<open>{...item, normalizedSize: v}\<close> is a
  record that holds the item and the new property, and an element of
  \<^verbatim>\<open>layouts\<close> holds that record and the four computed properties.
\<close>

record 'm item =
  item_size :: real
  item_rest :: 'm

record 'm normalizedItem =
  item :: "'m item"
  normalizedSize :: real

record 'm placed =
  source :: "'m normalizedItem"
  rect_x :: jsnum
  rect_y :: jsnum
  rect_width :: jsnum
  rect_height :: jsnum

section \<open>The recursive partition\<close>

text \<open>
  \<^verbatim>\<open>worstRatio(row, area, side)\<close> (layout.js, lines 195 to 208); the
  \<^verbatim>\<open>forEach\<close> is a left fold over the accumulator \<^verbatim>\<open>worst\<close>.
\<close>

definition worstRatio :: "'m normalizedItem list \<Rightarrow> jsnum \<Rightarrow> jsnum \<Rightarrow> jsnum" where
  "worstRatio row area side =
     (if length row = 0 then PosInf
      else
        let len = area / side
        in foldl (\<lambda>worst it.
                    let itemSide = Num (normalizedSize it) / len;
                        ratio = Math_max (len / itemSide) (itemSide / len)
                    in Math_max worst ratio)
                 (Num 0) row)"

text \<open>
  The \<^verbatim>\<open>while (i < items.length)\<close> loop of \<^verbatim>\<open>layoutSquarified\<close> (lines 132 to
  154) on its state \<^verbatim>\<open>row\<close>, \<^verbatim>\<open>rowArea\<close>, \<^verbatim>\<open>i\<close>; it returns the row and its
  area when the loop is left.
\<close>

function findRow ::
  "'m normalizedItem list \<Rightarrow> jsnum \<Rightarrow> 'm normalizedItem list \<Rightarrow> jsnum \<Rightarrow> nat
     \<Rightarrow> 'm normalizedItem list \<times> jsnum" where
  "findRow items side row rowArea i =
     (if i < length items then
        let testRow = row @ [items ! i];
            testArea = rowArea + Num (normalizedSize (items ! i))
        in if length row = 0 then findRow items side (row @ [items ! i]) testArea (i + 1)
           else
             let currentWorst = worstRatio row rowArea side;
                 testWorst = worstRatio testRow testArea side
             in if testWorst \<le> currentWorst
                then findRow items side (row @ [items ! i]) testArea (i + 1)
                else (row, rowArea)
      else (row, rowArea))"
  by pat_completeness auto
termination
  by (relation "measure (\<lambda>(items, side, row, rowArea, i). length items - i)") auto

text \<open>
  The \<^verbatim>\<open>row.forEach\<close> of lines 160 to 182 on its state: the shared array
  \<^verbatim>\<open>layouts\<close> and the running \<^verbatim>\<open>offset\<close>.
\<close>

fun emitRow ::
  "real \<Rightarrow> bool \<Rightarrow> jsnum \<Rightarrow> jsnum \<Rightarrow> jsnum \<Rightarrow> 'm normalizedItem list
     \<Rightarrow> 'm placed list \<times> jsnum \<Rightarrow> 'm placed list \<times> jsnum" where
  "emitRow padding vertical x y rowLength [] (layouts, offset) = (layouts, offset)"
| "emitRow padding vertical x y rowLength (it # rest) (layouts, offset) =
     (let itemSize = Num (normalizedSize it) / rowLength
      in emitRow padding vertical x y rowLength rest
           (if vertical
            then layouts @
              [\<lparr>source = it,
                rect_x = x + Num (padding / 2),
                rect_y = y + offset + Num (padding / 2),
                rect_width = Math_max (rowLength - Num padding) (Num 0),
                rect_height = Math_max (itemSize - Num padding) (Num 0)\<rparr>]
            else layouts @
              [\<lparr>source = it,
                rect_x = x + offset + Num (padding / 2),
                rect_y = y + Num (padding / 2),
                rect_width = Math_max (itemSize - Num padding) (Num 0),
                rect_height = Math_max (rowLength - Num padding) (Num 0)\<rparr>],
            offset + itemSize))"

lemma findRow_nonempty:
  "row \<noteq> [] \<or> i < length items \<Longrightarrow> fst (findRow items side row rowArea i) \<noteq> []"
proof (induction items side row rowArea i rule: findRow.induct)
  case (1 items side row rowArea i)
  show ?case
  proof (cases "i < length items")
    case True
    then show ?thesis
      using 1 by (subst findRow.simps) (auto simp: Let_def)
  next
    case False
    then show ?thesis
      using 1(3) by (subst findRow.simps) simp
  qed
qed

text \<open>
  \<^verbatim>\<open>layoutSquarified(items, x, y, width, height)\<close> (lines 109 to 193). The closure
  variables \<^verbatim>\<open>padding\<close> and \<^verbatim>\<open>layouts\<close> are a parameter and a threaded state.
\<close>

function layoutSquarified ::
  "real \<Rightarrow> 'm normalizedItem list \<Rightarrow> jsnum \<Rightarrow> jsnum \<Rightarrow> jsnum \<Rightarrow> jsnum
     \<Rightarrow> 'm placed list \<Rightarrow> 'm placed list" where
  "layoutSquarified padding items x y width height layouts =
     (if length items = 0 then layouts
      else if length items = 1 then
        layouts @
          [\<lparr>source = items ! 0,
            rect_x = x + Num (padding / 2),
            rect_y = y + Num (padding / 2),
            rect_width = Math_max (width - Num padding) (Num 0),
            rect_height = Math_max (height - Num padding) (Num 0)\<rparr>]
      else
        let vertical = (width \<ge> height);
            side = (if vertical then height else width);
            found = findRow items side [] (Num 0) 0;
            row = fst found;
            rowArea = snd found;
            rowLength = rowArea / side;
            layouts' = fst (emitRow padding vertical x y rowLength row (layouts, Num 0));
            remaining = drop (length row) items
        in if length remaining > 0 then
             (if vertical
              then layoutSquarified padding remaining (x + rowLength) y (width - rowLength) height layouts'
              else layoutSquarified padding remaining x (y + rowLength) width (height - rowLength) layouts')
           else layouts')"
  by pat_completeness auto
termination
proof (relation "measure (\<lambda>(padding, items, x, y, width, height, layouts). length items)")
  show "wf (measure (\<lambda>(padding, items, x, y, width, height, layouts). length (items :: 'a normalizedItem list)))"
    by simp
next
  fix padding :: real and items :: "'a normalizedItem list" and x y width height :: jsnum
    and layouts :: "'a placed list" and vertical side found row rowArea rowLength layouts' remaining
  assume "length items \<noteq> 0" "found = findRow items side [] (Num 0) 0" "row = fst found"
    "remaining = drop (length row) items"
  then have "row \<noteq> []"
    using findRow_nonempty [of "[]" 0 items side "Num 0"] by simp
  then show "((padding, remaining, x + rowLength, y, width - rowLength, height, layouts'),
              (padding, items, x, y, width, height, layouts))
             \<in> measure (\<lambda>(padding, items, x, y, width, height, layouts). length items)"
    using \<open>length items \<noteq> 0\<close> \<open>remaining = drop (length row) items\<close> by (cases row) auto
  from \<open>row \<noteq> []\<close>
  show "((padding, remaining, x, y + rowLength, width, height - rowLength, layouts'),
         (padding, items, x, y, width, height, layouts))
        \<in> measure (\<lambda>(padding, items, x, y, width, height, layouts). length items)"
    using \<open>length items \<noteq> 0\<close> \<open>remaining = drop (length row) items\<close> by (cases row) auto
qed

section \<open>The entry point\<close>

text \<open>
  \<^verbatim>\<open>calculateLayout(items, containerWidth, containerHeight, padding)\<close> (lines 4 to
  215). The comparator \<^verbatim>\<open>b.normalizedSize - a.normalizedSize\<close> of the stable
  \<^verbatim>\<open>Array.prototype.sort\<close> orders by decreasing \<^verbatim>\<open>normalizedSize\<close> and keeps
  the input order of equal elements. The first run of \<^verbatim>\<open>layoutSquarified\<close> (line
  107) is discarded by \<^verbatim>\<open>layouts.length = 0\<close> (line 211) before the second run
  (line 212); the helpers \<^verbatim>\<open>squarify\<close>, \<^verbatim>\<open>worst\<close> and \<^verbatim>\<open>layoutRow\<close> are
  never called. The default value 3 of \<^verbatim>\<open>padding\<close> is left to the caller.
\<close>

definition normalizedItems :: "'m item list \<Rightarrow> real \<Rightarrow> real \<Rightarrow> 'm normalizedItem list" where
  "normalizedItems items totalSize totalArea =
     sort_key (\<lambda>a. - normalizedSize a)
       (map (\<lambda>it. \<lparr>item = it, normalizedSize = (item_size it / totalSize) * totalArea\<rparr>) items)"

definition calculateLayout :: "'m item list \<Rightarrow> real \<Rightarrow> real \<Rightarrow> real \<Rightarrow> 'm placed list" where
  "calculateLayout items containerWidth containerHeight padding =
     (if length items = 0 then []
      else
        let totalSize = foldl (\<lambda>sum it. sum + item_size it) 0 items
        in if totalSize = 0 then []
           else
             let totalArea = containerWidth * containerHeight;
                 normalized = normalizedItems items totalSize totalArea;
                 layouts = [];
                 layouts = layoutSquarified padding normalized (Num 0) (Num 0)
                             (Num containerWidth) (Num containerHeight) layouts;
                 layouts = [];
                 layouts = layoutSquarified padding normalized (Num 0) (Num 0)
                             (Num containerWidth) (Num containerHeight) layouts
             in layouts)"

section \<open>Cells: the rectangles before padding\<close>

text \<open>
  On finite positive input every value of a run is finite, and each emitted rectangle
  is a cell \<open>(cx, cy, cw, ch)\<close> of the partition with the padding subtracted. The
  definitions below describe the cells and what it means for them to tile a rectangle.
\<close>

type_synonym cell = "real \<times> real \<times> real \<times> real"


fun rowCells :: "bool \<Rightarrow> real \<Rightarrow> real \<Rightarrow> real \<Rightarrow> 'm normalizedItem list \<Rightarrow> real \<Rightarrow> cell list" where
  "rowCells vertical X Y L [] off = []"
| "rowCells vertical X Y L (it # rest) off =
     (if vertical then (X, Y + off, L, normalizedSize it / L)
      else (X + off, Y, normalizedSize it / L, L))
     # rowCells vertical X Y L rest (off + normalizedSize it / L)"






section \<open>Recursion depth\<close>

text \<open>
  The same function with a bound on the number of nested activations: every activation
  of \<^verbatim>\<open>layoutSquarified\<close> uses one unit of fuel, and \<open>None\<close> is returned when
  the recursion would go deeper than the fuel allows.
\<close>

fun layoutSquarified_fuel ::
  "nat \<Rightarrow> real \<Rightarrow> 'm normalizedItem list \<Rightarrow> jsnum \<Rightarrow> jsnum \<Rightarrow> jsnum \<Rightarrow> jsnum
     \<Rightarrow> 'm placed list \<Rightarrow> 'm placed list option" where
  "layoutSquarified_fuel 0 padding items x y width height layouts = None"
| "layoutSquarified_fuel (Suc depth) padding items x y width height layouts =
     (if length items = 0 then Some layouts
      else if length items = 1 then
        Some (layouts @
          [\<lparr>source = items ! 0,
            rect_x = x + Num (padding / 2),
            rect_y = y + Num (padding / 2),
            rect_width = Math_max (width - Num padding) (Num 0),
            rect_height = Math_max (height - Num padding) (Num 0)\<rparr>])
      else
        let vertical = (width \<ge> height);
            side = (if vertical then height else width);
            found = findRow items side [] (Num 0) 0;
            row = fst found;
            rowArea = snd found;
            rowLength = rowArea / side;
            layouts' = fst (emitRow padding vertical x y rowLength row (layouts, Num 0));
            remaining = drop (length row) items
        in if length remaining > 0 then
             (if vertical
              then layoutSquarified_fuel depth padding remaining (x + rowLength) y (width - rowLength) height layouts'
              else layoutSquarified_fuel depth padding remaining x (y + rowLength) width (height - rowLength) layouts')
           else Some layouts')"

section \<open>Vocabulary of the properties\<close>







text \<open>
  Two rectangles overlap when their intersection has positive width and positive
  height; \<open>no_overlaps\<close> says so of no two elements of a list.
\<close>

fun Math_min :: "jsnum \<Rightarrow> jsnum \<Rightarrow> jsnum" where
  "Math_min NaN b = NaN"
| "Math_min a NaN = NaN"
| "Math_min a b = (if a \<le> b then a else b)"






section \<open>Auxiliary facts\<close>

declare findRow.simps [simp del] layoutSquarified.simps [simp del]

lemma Math_max_Num [simp]: "Math_max (Num a) (Num b) = Num (max a b)"
  by (simp add: max_def)



lemma length_rowCells [simp]: "length (rowCells vertical X Y L row off) = length row"
  by (induction row arbitrary: off) simp_all













lemma Math_max_idem [simp]: "Math_max (Math_max a (Num 0)) (Num 0) = Math_max a (Num 0)"
  by (cases a) simp_all






lemma foldl_item_size:
  "foldl (\<lambda>sum it. sum + item_size it) a items = a + sum_list (map item_size items)"
  by (induction items arbitrary: a) (simp_all add: add.assoc)

lemma Math_min_Num [simp]: "Math_min (Num a) (Num b) = Num (min a b)"
  by (simp add: min_def)








lemma layoutSquarified_fuel_enough:
  "items \<noteq> [] \<Longrightarrow> length items \<le> n \<Longrightarrow>
   layoutSquarified_fuel n padding items x y width height layouts =
     Some (layoutSquarified padding items x y width height layouts)"
proof (induction "length items" arbitrary: items n x y width height layouts rule: less_induct)
  case less
  from less.prems obtain m where n: "n = Suc m"
    by (cases n) auto
  have "length items \<noteq> 0"
    using less.prems(1) by simp
  then consider "length items = 1" | "2 \<le> length items"
    by linarith
  then show ?case
  proof cases
    case 1
    then show ?thesis
      unfolding n by (subst layoutSquarified.simps) simp
  next
    case 2
    have nonempty: "fst (findRow items s [] (Num 0) 0) \<noteq> []" for s
      using findRow_nonempty [of "[]" 0 items s "Num 0"] less.prems(1) by simp
    have rec: "layoutSquarified_fuel m padding (drop (length r) items) x' y' w' h' l' =
        Some (layoutSquarified padding (drop (length r) items) x' y' w' h' l')"
      if "r \<noteq> []" "drop (length r) items \<noteq> []" for r :: "'a normalizedItem list" and x' y' w' h' l'
    proof -
      have shorter: "length (drop (length r) items) < length items"
        using that(1) less.prems(1) by (cases r) auto
      then have "length (drop (length r) items) \<le> m"
        using less.prems(2) n by simp
      with less.hyps [OF shorter that(2)] show ?thesis .
    qed
    show ?thesis
      unfolding n using 2
      by (subst layoutSquarified.simps) (simp add: Let_def rec nonempty)
  qed
qed










section \<open>Area conservation\<close>




section \<open>Proportionality\<close>




section \<open>No overlap\<close>



section \<open>Degenerate input\<close>

text \<open>
  Claim C4. For every width, height and padding, \<^verbatim>\<open>calculateLayout\<close> returns the
  empty sequence when the list of items is empty or when the sizes of the items sum
  to zero: both early returns come before any division. The model has no exception,
  as the code raises none on a list of objects with a numeric \<^verbatim>\<open>size\<close>. The
  instances of the claim are the empty list and one item of size 0, in 100 by 100
  with padding 3.
\<close>

theorem calculateLayout_degenerate:
  "items = [] \<or> sum_list (map item_size items) = 0 \<Longrightarrow>
   calculateLayout items containerWidth containerHeight padding = []"
  by (auto simp: calculateLayout_def foldl_item_size)

theorem calculateLayout_degenerate_witness:
  "calculateLayout ([] :: string item list) 100 100 3 = []
   \<and> calculateLayout [\<lparr>item_size = 0, item_rest = ''a''\<rparr>] 100 100 3 = []"
proof
  show "calculateLayout ([] :: string item list) 100 100 3 = []"
    by (rule calculateLayout_degenerate) simp
  show "calculateLayout [\<lparr>item_size = 0, item_rest = ''a''\<rparr>] 100 100 3 = []"
    by (rule calculateLayout_degenerate) simp
qed

section \<open>A single item\<close>

text \<open>
  Claim C5. A list of one item of positive size, laid out in a rectangle of positive
  width and height, gives exactly one rectangle: the whole target rectangle with the
  padding inset, at \<open>x = padding / 2\<close>, \<open>y = padding / 2\<close>, of width
  \<open>max (width - padding) 0\<close> and height \<open>max (height - padding) 0\<close>. The instance
  of the claim, one item of size 5 in 200 by 100 with padding 0, is the rectangle at
  the origin of width 200 and height 100.
\<close>

theorem calculateLayout_single:
  "0 < item_size i \<Longrightarrow> 0 < containerWidth \<Longrightarrow> 0 < containerHeight \<Longrightarrow>
   calculateLayout [i] containerWidth containerHeight padding =
     [\<lparr>source = \<lparr>item = i, normalizedSize = containerWidth * containerHeight\<rparr>,
       rect_x = Num (padding / 2),
       rect_y = Num (padding / 2),
       rect_width = Num (max (containerWidth - padding) 0),
       rect_height = Num (max (containerHeight - padding) 0)\<rparr>]"
  by (simp add: calculateLayout_def normalizedItems_def layoutSquarified.simps)

theorem calculateLayout_single_witness:
  "calculateLayout [\<lparr>item_size = 5, item_rest = ''a''\<rparr>] 200 100 0 =
     [\<lparr>source = \<lparr>item = \<lparr>item_size = 5, item_rest = ''a''\<rparr>, normalizedSize = 20000\<rparr>,
       rect_x = Num 0, rect_y = Num 0, rect_width = Num 200, rect_height = Num 100\<rparr>]"
  using calculateLayout_single [of "\<lparr>item_size = 5, item_rest = ''a''\<rparr>" 200 100 0]
  by simp

section \<open>Two equal items\<close>

text \<open>
  Claim C6. Two items of weight 1 in a rectangle of 200 by 100 with padding 0 are laid
  out as two squares of 100 by 100, the first at \<open>x = 0\<close> and the second at
  \<open>x = 100\<close>, and not as two slices of 200 by 50: the row of the first call keeps
  the first item alone, because the second would raise the worst ratio from 1 to 4.
\<close>

theorem calculateLayout_two_equal:
  "calculateLayout [\<lparr>item_size = 1, item_rest = ''a''\<rparr>, \<lparr>item_size = 1, item_rest = ''b''\<rparr>] 200 100 0 =
     [\<lparr>source = \<lparr>item = \<lparr>item_size = 1, item_rest = ''a''\<rparr>, normalizedSize = 10000\<rparr>,
       rect_x = Num 0, rect_y = Num 0, rect_width = Num 100, rect_height = Num 100\<rparr>,
      \<lparr>source = \<lparr>item = \<lparr>item_size = 1, item_rest = ''b''\<rparr>, normalizedSize = 10000\<rparr>,
       rect_x = Num 100, rect_y = Num 0, rect_width = Num 100, rect_height = Num 100\<rparr>]"
  by (simp add: calculateLayout_def normalizedItems_def layoutSquarified.simps findRow.simps
        worstRatio_def Let_def)

section \<open>Termination\<close>

text \<open>
  Claim C7. \<^verbatim>\<open>layoutSquarified\<close> terminates on every input. On a non-empty list
  the row found by the loop holds at least one item, whatever the numbers are, so the
  list passed to the recursive call is strictly shorter; and for \<open>n\<close> items the
  recursion is at most \<open>n\<close> activations deep: with fuel \<open>n\<close> the bounded function
  returns the result of \<^verbatim>\<open>layoutSquarified\<close>. The termination proof of the
  function itself uses the same measure, the number of items, and
  \<^verbatim>\<open>calculateLayout\<close>, which calls it on non-empty lists only, is total.
\<close>

theorem layoutSquarified_terminates:
  "items \<noteq> [] \<Longrightarrow>
   fst (findRow items side [] (Num 0) 0) \<noteq> [] \<and>
   length (drop (length (fst (findRow items side [] (Num 0) 0))) items) < length items \<and>
   layoutSquarified_fuel (length items) padding items x y width height layouts =
     Some (layoutSquarified padding items x y width height layouts)"
proof (intro conjI)
  assume ne: "items \<noteq> []"
  show row: "fst (findRow items side [] (Num 0) 0) \<noteq> []"
    using findRow_nonempty [of "[]" 0 items side "Num 0"] ne by simp
  show "length (drop (length (fst (findRow items side [] (Num 0) 0))) items) < length items"
    using row ne by (cases "fst (findRow items side [] (Num 0) 0)") auto
  show "layoutSquarified_fuel (length items) padding items x y width height layouts =
     Some (layoutSquarified padding items x y width height layouts)"
    by (rule layoutSquarified_fuel_enough [OF ne]) simp
qed

theorem layoutSquarified_terminates_witness:
  "[\<lparr>item = \<lparr>item_size = 1, item_rest = ''a''\<rparr>, normalizedSize = 10000\<rparr>,
    \<lparr>item = \<lparr>item_size = 1, item_rest = ''b''\<rparr>, normalizedSize = 10000\<rparr>] \<noteq> [] \<and>
   layoutSquarified_fuel 2 0
     [\<lparr>item = \<lparr>item_size = 1, item_rest = ''a''\<rparr>, normalizedSize = 10000\<rparr>,
      \<lparr>item = \<lparr>item_size = 1, item_rest = ''b''\<rparr>, normalizedSize = 10000\<rparr>]
     (Num 0) (Num 0) (Num 200) (Num 100) [] =
   Some
     [\<lparr>source = \<lparr>item = \<lparr>item_size = 1, item_rest = ''a''\<rparr>, normalizedSize = 10000\<rparr>,
       rect_x = Num 0, rect_y = Num 0, rect_width = Num 100, rect_height = Num 100\<rparr>,
      \<lparr>source = \<lparr>item = \<lparr>item_size = 1, item_rest = ''b''\<rparr>, normalizedSize = 10000\<rparr>,
       rect_x = Num 100, rect_y = Num 0, rect_width = Num 100, rect_height = Num 100\<rparr>]"
  using layoutSquarified_terminates
    [of "[\<lparr>item = \<lparr>item_size = 1, item_rest = ''a''\<rparr>, normalizedSize = 10000\<rparr>,
          \<lparr>item = \<lparr>item_size = 1, item_rest = ''b''\<rparr>, normalizedSize = 10000\<rparr>]"
        "Num 100" 0 "Num 0" "Num 0" "Num 200" "Num 100" "[]"]
  by (simp add: numeral_2_eq_2 layoutSquarified.simps findRow.simps worstRatio_def Let_def)

section \<open>Emitted dimensions\<close>




section \<open>One rectangle per item\<close>



section \<open>Order of the output\<close>




end
